theory Spec2Isabelle
  imports Complex_Main
begin

section \<open>Cache keys (cache-key.util.ts)\<close>

text \<open>
  JavaScript strings are modelled as \<open>string\<close> (a list of characters). The numbers
  \<open>page\<close> and \<open>limit\<close> of \<open>buildList\<close> are modelled as \<open>int\<close>: an integer-valued number below
  \<open>10^21\<close> in magnitude is printed by a template literal in plain decimal digits, which
  is what \<open>string_of_int\<close> does. Fractions and \<open>NaN\<close> are outside this model.
\<close>

fun string_of_nat :: "nat \<Rightarrow> string" where
  "string_of_nat n =
     (if n < 10 then [''0123456789'' ! n]
      else string_of_nat (n div 10) @ [''0123456789'' ! (n mod 10)])"

declare string_of_nat.simps [simp del]

definition string_of_int :: "int \<Rightarrow> string" where
  "string_of_int i = (if i < 0 then CHR ''-'' # string_of_nat (nat (- i)) else string_of_nat (nat i))"

definition NAMESPACE :: string where
  "NAMESPACE = ''app''"

definition VERSION :: string where
  "VERSION = ''v1''"

text \<open>
  The second parameter of \<open>build\<close> is a \<open>string | number\<close>, and all \<open>build\<close> does with it
  is let the template literal insert its text: the argument itself when it is a string,
  and for a number the text the language prints for it (\<open>42\<close> for the number 42,
  \<open>1e+21\<close> for the number \<open>10^21\<close>, \<open>NaN\<close>). The model takes this text as the
  identifier, so that it says of every identifier what the code does with it.
\<close>

definition build :: "string \<Rightarrow> string \<Rightarrow> string" where
  "build resource identifier =
     NAMESPACE @ '':'' @ VERSION @ '':'' @ resource @ '':'' @ identifier"

definition pattern :: "string \<Rightarrow> string option \<Rightarrow> string" where
  "pattern resource wildcard =
     NAMESPACE @ '':'' @ VERSION @ '':'' @ resource @ '':''
       @ (case wildcard of None \<Rightarrow> ''*'' | Some w \<Rightarrow> w)"

text \<open>
  The argument \<open>{ page?: number; limit?: number }\<close> of \<open>buildList\<close>: a property that is
  left out is \<open>None\<close>. The argument itself is optional and defaults to \<open>{}\<close>.
\<close>

record list_params =
  page :: "int option"
  limit :: "int option"

definition no_list_params :: list_params where
  "no_list_params = \<lparr>page = None, limit = None\<rparr>"

definition buildList :: "string \<Rightarrow> list_params option \<Rightarrow> string" where
  "buildList resource params_arg =
     (let params = (case params_arg of None \<Rightarrow> no_list_params | Some p \<Rightarrow> p);
          page_v = (case page params of None \<Rightarrow> 1 | Some p \<Rightarrow> p);
          limit_v = (case limit params of None \<Rightarrow> 10 | Some l \<Rightarrow> l)
      in NAMESPACE @ '':'' @ VERSION @ '':'' @ resource @ '':list:page-'' @ string_of_int page_v
           @ '':limit-'' @ string_of_int limit_v)"

text \<open>The table \<open>CacheTTL\<close>, in seconds.\<close>

definition CacheTTL_USER :: int where
  "CacheTTL_USER = 300"

definition CacheTTL_USER_LIST :: int where
  "CacheTTL_USER_LIST = 60"

definition CacheTTL_ROLE :: int where
  "CacheTTL_ROLE = 3600"

section \<open>Values, errors and logs\<close>

text \<open>
  A value a handler may return and a cache entry may decode to. Numbers are exact
  rationals (finite, not \<open>NaN\<close>); an object is the list of its properties in
  insertion order.
\<close>

datatype jsval =
    JUndefined
  | JNull
  | JBool bool
  | JNum rat
  | JStr string
  | JArr "jsval list"
  | JObj "(string \<times> jsval) list"

text \<open>What \<open>if (data)\<close> tests: every object, the empty array included, is truthy.\<close>

fun truthy :: "jsval \<Rightarrow> bool" where
  "truthy JUndefined = False"
| "truthy JNull = False"
| "truthy (JBool b) = b"
| "truthy (JNum n) = (n \<noteq> 0)"
| "truthy (JStr s) = (s \<noteq> [])"
| "truthy (JArr xs) = True"
| "truthy (JObj ps) = True"

text \<open>
  What \<open>if (cachedData)\<close> tests on a \<open>string | null\<close>: the result is the string the
  true branch goes on with, and \<open>None\<close> when the test fails (\<open>null\<close> or the empty string).
\<close>

fun truthy_string :: "string option \<Rightarrow> string option" where
  "truthy_string None = None"
| "truthy_string (Some s) = (if s = [] then None else Some s)"

text \<open>
  Exceptions are values: the \<open>SyntaxError\<close> of \<open>JSON.parse\<close>, an error raised by the
  ioredis client, and a failure of the wrapped handler.
\<close>

datatype error = SyntaxError | ClientError string | HandlerError string

text \<open>
  Each class writes to its own \<open>Logger\<close>; a logger is the list of its entries, oldest
  first. The pictograms that open some messages in the source are left out, and so is
  the error object handed to \<open>logger.error\<close> as a second argument.
\<close>

datatype level = LOG | ERROR | WARN | DEBUG

type_synonym log_entry = "level \<times> string"

section \<open>The ioredis client\<close>

text \<open>
  The client library is not part of the repository. Its client object is a state of an
  arbitrary type \<open>'c\<close>, and the commands the repository sends are the fields of
  \<open>client_ops\<close>: a command takes the client state and returns either an error (the
  promise rejects) or a reply, together with the client state afterwards.
\<close>

record 'c client_ops =
  c_get :: "'c \<Rightarrow> string \<Rightarrow> (error + string option) \<times> 'c"
  c_set :: "'c \<Rightarrow> string \<Rightarrow> string \<Rightarrow> (error + unit) \<times> 'c"
  c_setex :: "'c \<Rightarrow> string \<Rightarrow> int \<Rightarrow> string \<Rightarrow> (error + unit) \<times> 'c"
  c_del :: "'c \<Rightarrow> string list \<Rightarrow> (error + unit) \<times> 'c"
  c_keys :: "'c \<Rightarrow> string \<Rightarrow> (error + string list) \<times> 'c"
  c_info :: "'c \<Rightarrow> string \<Rightarrow> (error + string) \<times> 'c"
  c_dbsize :: "'c \<Rightarrow> (error + nat) \<times> 'c"
  c_config :: "'c \<Rightarrow> string \<Rightarrow> (error + unit) \<times> 'c"

section \<open>RedisService (redis.service.ts)\<close>

record 'c redis_service =
  client :: 'c
  isConnected :: bool
  logger :: "log_entry list"

definition write_log :: "level \<Rightarrow> string \<Rightarrow> 'c redis_service \<Rightarrow> 'c redis_service" where
  "write_log lv msg this = this\<lparr>logger := logger this @ [(lv, msg)]\<rparr>"

text \<open>The three connection-lifecycle callbacks registered in \<open>onModuleInit\<close>.\<close>

definition on_connect :: "'c redis_service \<Rightarrow> 'c redis_service" where
  "on_connect this = (write_log LOG ''Connected to Redis'' this)\<lparr>isConnected := True\<rparr>"

definition on_error :: "'c redis_service \<Rightarrow> 'c redis_service" where
  "on_error this = (write_log ERROR ''Redis connection error'' this)\<lparr>isConnected := False\<rparr>"

definition on_close :: "'c redis_service \<Rightarrow> 'c redis_service" where
  "on_close this = (write_log WARN ''Redis connection closed'' this)\<lparr>isConnected := False\<rparr>"

definition getClient :: "'c redis_service \<Rightarrow> 'c" where
  "getClient this = client this"

definition isHealthy :: "'c redis_service \<Rightarrow> bool" where
  "isHealthy this = isConnected this"

text \<open>
  Every method returns \<open>Inl e\<close> when the exception \<open>e\<close> leaves it and \<open>Inr r\<close> when it
  returns \<open>r\<close>; the \<open>try\<close>/\<open>catch\<close> of the source is the case split on the client's
  answer. In \<open>set\<close>, \<open>if (ttlSeconds)\<close> holds for a number that is given and not \<open>0\<close>.
\<close>

definition get :: "'c client_ops \<Rightarrow> 'c redis_service \<Rightarrow> string \<Rightarrow> (error + string option) \<times> 'c redis_service" where
  "get ops this key =
     (if \<not> isHealthy this
      then (Inr None, write_log WARN (''Redis unavailable, skipping GET for key: '' @ key) this)
      else (case c_get ops (client this) key of
              (Inr v, c') \<Rightarrow> (Inr v, this\<lparr>client := c'\<rparr>)
            | (Inl e, c') \<Rightarrow>
                (Inr None, write_log ERROR (''Redis GET error for key '' @ key @ '':'') (this\<lparr>client := c'\<rparr>))))"

definition set_value :: "'c client_ops \<Rightarrow> 'c redis_service \<Rightarrow> string \<Rightarrow> string \<Rightarrow> int option \<Rightarrow> (error + unit) \<times> 'c redis_service" where
  "set_value ops this key val ttlSeconds =
     (if \<not> isHealthy this
      then (Inr (), write_log WARN (''Redis unavailable, skipping SET for key: '' @ key) this)
      else (case (case ttlSeconds of
                    Some t \<Rightarrow> if t \<noteq> 0 then c_setex ops (client this) key t val
                              else c_set ops (client this) key val
                  | None \<Rightarrow> c_set ops (client this) key val) of
              (Inr u, c') \<Rightarrow> (Inr (), this\<lparr>client := c'\<rparr>)
            | (Inl e, c') \<Rightarrow>
                (Inr (), write_log ERROR (''Redis SET error for key '' @ key @ '':'') (this\<lparr>client := c'\<rparr>))))"

text \<open>The argument \<open>string | string[]\<close> of \<open>del\<close>.\<close>

datatype del_arg = OneKey string | ManyKeys "string list"

definition del :: "'c client_ops \<Rightarrow> 'c redis_service \<Rightarrow> del_arg \<Rightarrow> (error + unit) \<times> 'c redis_service" where
  "del ops this key =
     (if \<not> isHealthy this
      then (Inr (), this)
      else (case (case key of
                    ManyKeys ks \<Rightarrow> c_del ops (client this) ks
                  | OneKey k \<Rightarrow> c_del ops (client this) [k]) of
              (Inr u, c') \<Rightarrow> (Inr (), this\<lparr>client := c'\<rparr>)
            | (Inl e, c') \<Rightarrow> (Inr (), write_log ERROR ''Redis DEL error:'' (this\<lparr>client := c'\<rparr>))))"

definition keys :: "'c client_ops \<Rightarrow> 'c redis_service \<Rightarrow> string \<Rightarrow> (error + string list) \<times> 'c redis_service" where
  "keys ops this pat =
     (if \<not> isHealthy this
      then (Inr [], this)
      else (case c_keys ops (client this) pat of
              (Inr ks, c') \<Rightarrow> (Inr ks, this\<lparr>client := c'\<rparr>)
            | (Inl e, c') \<Rightarrow> (Inr [], write_log ERROR ''Redis KEYS error:'' (this\<lparr>client := c'\<rparr>))))"


section \<open>CacheInterceptor (cache.decorator.ts, cache.interceptor.ts)\<close>

text \<open>
  \<open>JSON.stringify\<close> and \<open>JSON.parse\<close> are built into the language, not written in the
  repository: they are the two fields of \<open>json\<close>. \<open>JSON_stringify\<close> is only applied to
  truthy values of \<open>jsval\<close>, where the built-in returns a string; \<open>JSON_parse\<close> throws a
  \<open>SyntaxError\<close> or returns the value.
\<close>

record json =
  JSON_stringify :: "jsval \<Rightarrow> string"
  JSON_parse :: "string \<Rightarrow> error + jsval"

record cache_config =
  ttl :: int
  keyBuilder :: "(string \<rightharpoonup> string) \<Rightarrow> (string \<rightharpoonup> string) \<Rightarrow> string"

record http_request =
  params :: "string \<rightharpoonup> string"
  query :: "string \<rightharpoonup> string"

text \<open>
  Of the \<open>ExecutionContext\<close> the interceptor reads two things: the metadata that
  \<open>Cached\<close> attached to the handler under \<open>CACHE_KEY\<close> (\<open>None\<close> for a handler without the
  decorator), and the request.
\<close>

record execution_context =
  cache_metadata :: "cache_config option"
  getRequest :: http_request

text \<open>The process-local counters of \<open>CacheMetricsService\<close>.\<close>

record cache_metrics_service =
  hits :: nat
  misses :: nat

text \<open>
  The state of the application: the shared \<open>RedisService\<close>, the metrics service, the
  interceptor's logger, and whatever the wrapped handlers read and write (\<open>world\<close>: the
  database behind \<open>UsersService\<close>). \<open>next.handle()\<close> runs the handler on the world and
  either fails or emits one value.
\<close>

record ('c, 'w) app =
  redis :: "'c redis_service"
  metrics :: cache_metrics_service
  interceptor_logger :: "log_entry list"
  world :: 'w

type_synonym 'w call_handler = "'w \<Rightarrow> (error + jsval) \<times> 'w"

definition debug :: "string \<Rightarrow> ('c, 'w) app \<Rightarrow> ('c, 'w) app" where
  "debug msg s = s\<lparr>interceptor_logger := interceptor_logger s @ [(DEBUG, msg)]\<rparr>"

text \<open>
  The callback given to \<open>tap\<close>. It runs for the value the handler emits; \<open>tap\<close> does not
  look at the promise it returns, so nothing it does changes the response.
\<close>

definition tap_callback :: "json \<Rightarrow> 'c client_ops \<Rightarrow> cache_config \<Rightarrow> string \<Rightarrow> jsval \<Rightarrow> ('c, 'w) app \<Rightarrow> ('c, 'w) app" where
  "tap_callback J ops cacheConfig cacheKey data s =
     (if truthy data
      then (case set_value ops (redis s) cacheKey (JSON_stringify J data) (Some (ttl cacheConfig)) of
              (Inr u, rs) \<Rightarrow>
                debug (''Cached: '' @ cacheKey @ '' (TTL: '' @ string_of_int (ttl cacheConfig) @ ''s)'')
                  (s\<lparr>redis := rs\<rparr>)
            | (Inl e, rs) \<Rightarrow> s\<lparr>redis := rs\<rparr>)
      else s)"

text \<open>
  \<open>intercept\<close> yields the outcome the caller of the interceptor sees (\<open>Inl\<close>: the promise
  or the observable fails with that error; \<open>Inr\<close>: the value emitted) and the state
  afterwards.
\<close>

definition intercept :: "json \<Rightarrow> 'c client_ops \<Rightarrow> execution_context \<Rightarrow> 'w call_handler \<Rightarrow> ('c, 'w) app \<Rightarrow> (error + jsval) \<times> ('c, 'w) app" where
  "intercept J ops context next_handle s =
     (case cache_metadata context of
        None \<Rightarrow> (case next_handle (world s) of (r, w') \<Rightarrow> (r, s\<lparr>world := w'\<rparr>))
      | Some cacheConfig \<Rightarrow>
          (let request = getRequest context;
               cacheKey = keyBuilder cacheConfig (params request) (query request)
           in case get ops (redis s) cacheKey of
                (Inl e, rs) \<Rightarrow> (Inl e, s\<lparr>redis := rs\<rparr>)
              | (Inr cachedData, rs) \<Rightarrow>
                  (case truthy_string cachedData of
                     Some payload \<Rightarrow>
                       (JSON_parse J payload, debug (''Cache HIT: '' @ cacheKey) (s\<lparr>redis := rs\<rparr>))
                   | None \<Rightarrow>
                       (let s1 = debug (''Cache MISS: '' @ cacheKey) (s\<lparr>redis := rs\<rparr>)
                        in case next_handle (world s1) of
                             (Inl e, w') \<Rightarrow> (Inl e, s1\<lparr>world := w'\<rparr>)
                           | (Inr data, w') \<Rightarrow>
                               (Inr data,
                                tap_callback J ops cacheConfig cacheKey data (s1\<lparr>world := w'\<rparr>))))))"

text \<open>The binding of \<open>UsersController.findOne\<close>; a missing \<open>params.id\<close> prints as \<open>undefined\<close>.\<close>

definition findOne_cached :: cache_config where
  "findOne_cached =
     \<lparr>ttl = CacheTTL_USER,
      keyBuilder = (\<lambda>params query.
        build ''user'' (case params ''id'' of Some v \<Rightarrow> v | None \<Rightarrow> ''undefined''))\<rparr>"

section \<open>CacheMetricsService (cache-metrics.service.ts)\<close>

definition recordHit :: "cache_metrics_service \<Rightarrow> cache_metrics_service" where
  "recordHit this = this\<lparr>hits := hits this + 1\<rparr>"

definition recordMiss :: "cache_metrics_service \<Rightarrow> cache_metrics_service" where
  "recordMiss this = this\<lparr>misses := misses this + 1\<rparr>"

text \<open>
  The regular expressions of the service all have the shape: a literal text, then a
  group of one or more characters of one class, as many as there are. \<open>regex_capture\<close>
  returns the group of the leftmost match.
\<close>

fun regex_capture :: "string \<Rightarrow> (char \<Rightarrow> bool) \<Rightarrow> string \<Rightarrow> string option" where
  "regex_capture lit cls [] = None"
| "regex_capture lit cls (c # cs) =
     (let grp = takeWhile cls (drop (length lit) (c # cs))
      in if take (length lit) (c # cs) = lit \<and> grp \<noteq> [] then Some grp
         else regex_capture lit cls cs)"

definition is_digit :: "char \<Rightarrow> bool" where
  "is_digit c = (c \<in> set ''0123456789'')"

text \<open>
  The class of \<open>.\<close> is every character but a line terminator, and \<open>trim\<close> strips white
  space; of both, the characters below 128 are modelled (an \<open>INFO\<close> text has no others).
\<close>

definition not_line_terminator :: "char \<Rightarrow> bool" where
  "not_line_terminator c = (c \<noteq> CHR 0x0A \<and> c \<noteq> CHR 0x0D)"

definition is_space :: "char \<Rightarrow> bool" where
  "is_space c = (c \<in> set [CHR '' '', CHR 0x09, CHR 0x0A, CHR 0x0B, CHR 0x0C, CHR 0x0D])"

definition trim :: "string \<Rightarrow> string" where
  "trim s = rev (dropWhile is_space (rev (dropWhile is_space s)))"

text \<open>
  The numbers of the service are the floating-point numbers of the language, and the
  arithmetic on them is the language's, not the repository's. They are a type \<open>'n\<close>, and
  the operations the service uses are the fields of \<open>number_ops\<close>: \<open>parseInt\<close> and
  \<open>parseFloat\<close> on a text, \<open>x.toFixed(digits)\<close>, the number an integer literal or an
  integer reply of the client stands for (\<open>num_of\<close>), and \<open>+\<close>, \<open>/\<close>, \<open>*\<close> and \<open>>\<close>.
\<close>

record 'n number_ops =
  parseInt :: "string \<Rightarrow> 'n"
  parseFloat :: "string \<Rightarrow> 'n"
  toFixed :: "'n \<Rightarrow> nat \<Rightarrow> string"
  num_of :: "nat \<Rightarrow> 'n"
  num_add :: "'n \<Rightarrow> 'n \<Rightarrow> 'n"
  num_div :: "'n \<Rightarrow> 'n \<Rightarrow> 'n"
  num_mul :: "'n \<Rightarrow> 'n \<Rightarrow> 'n"
  num_gt :: "'n \<Rightarrow> 'n \<Rightarrow> bool"

text \<open>
  The value of a property of the snapshot, which is the list of its properties in the
  order of the object literal.
\<close>

datatype 'n property = Number 'n | Text string

definition getMemoryUsage :: "'c client_ops \<Rightarrow> 'c redis_service \<Rightarrow> (error + string) \<times> 'c redis_service" where
  "getMemoryUsage ops rs =
     (case c_info ops (getClient rs) ''memory'' of
        (Inl e, c') \<Rightarrow> (Inl e, rs\<lparr>client := c'\<rparr>)
      | (Inr info, c') \<Rightarrow>
          (Inr (case regex_capture ''used_memory_human:'' not_line_terminator info of
                  None \<Rightarrow> ''Unknown''
                | Some grp \<Rightarrow> (if trim grp = [] then ''Unknown'' else trim grp)),
           rs\<lparr>client := c'\<rparr>))"

text \<open>
  \<open>Promise.all\<close> sends \<open>INFO stats\<close> and \<open>DBSIZE\<close> one after the other and fails when one
  of them fails; the snapshot is the object literal of the source, property by
  property.
\<close>

definition getMetrics :: "'n number_ops \<Rightarrow> 'c client_ops \<Rightarrow> ('c, 'w) app \<Rightarrow> (error + (string \<times> 'n property) list) \<times> ('c, 'w) app" where
  "getMetrics N ops s =
     (case c_info ops (getClient (redis s)) ''stats'' of (r_info, c1) \<Rightarrow>
     (case c_dbsize ops c1 of (r_dbsize, c2) \<Rightarrow>
     (case r_info of
        Inl e \<Rightarrow> (Inl e, s\<lparr>redis := (redis s)\<lparr>client := c2\<rparr>\<rparr>)
      | Inr info \<Rightarrow>
     (case r_dbsize of
        Inl e \<Rightarrow> (Inl e, s\<lparr>redis := (redis s)\<lparr>client := c2\<rparr>\<rparr>)
      | Inr dbSize \<Rightarrow>
         (let redisHits = parseInt N (case regex_capture ''keyspace_hits:'' is_digit info of
                                        Some grp \<Rightarrow> grp | None \<Rightarrow> ''0'');
              redisMisses = parseInt N (case regex_capture ''keyspace_misses:'' is_digit info of
                                          Some grp \<Rightarrow> grp | None \<Rightarrow> ''0'');
              totalRequests = num_add N redisHits redisMisses;
              hitRate = (if num_gt N totalRequests (num_of N 0)
                         then num_mul N (num_div N redisHits totalRequests) (num_of N 100)
                         else num_of N 0)
          in (case getMemoryUsage ops ((redis s)\<lparr>client := c2\<rparr>) of
                (Inl e, rs) \<Rightarrow> (Inl e, s\<lparr>redis := rs\<rparr>)
              | (Inr memoryUsed, rs) \<Rightarrow>
                  (Inr [(''hits'', Number redisHits),
                        (''misses'', Number redisMisses),
                        (''hitRate'', Number (parseFloat N (toFixed N hitRate 2))),
                        (''totalKeys'', Number (num_of N dbSize)),
                        (''memoryUsed'', Text memoryUsed)],
                   s\<lparr>redis := rs\<rparr>)))))))"

definition resetMetrics :: "'c client_ops \<Rightarrow> ('c, 'w) app \<Rightarrow> (error + unit) \<times> ('c, 'w) app" where
  "resetMetrics ops s =
     (case c_config ops (getClient (redis s)) ''RESETSTAT'' of
        (Inl e, c') \<Rightarrow> (Inl e, s\<lparr>redis := (redis s)\<lparr>client := c'\<rparr>\<rparr>)
      | (Inr u, c') \<Rightarrow>
          (Inr (), s\<lparr>redis := (redis s)\<lparr>client := c'\<rparr>, metrics := (metrics s)\<lparr>hits := 0, misses := 0\<rparr>\<rparr>))"


section \<open>Test doubles for the examples\<close>

text \<open>
  The closed examples below need a concrete client, a concrete \<open>json\<close> and a concrete
  handler. \<open>memory_client\<close> is an in-memory stand-in for a Redis server behind an
  ioredis client: it keeps the entries with their expiry in seconds, answers \<open>INFO\<close>
  with two fixed texts, records every command it is sent, and rejects every command
  while \<open>online\<close> is false.
\<close>

datatype command =
    GET string
  | SET string string
  | SETEX string int string
  | DEL "string list"
  | KEYS string
  | INFO string
  | DBSIZE
  | CONFIG string

record memory_client =
  entries :: "(string \<times> string \<times> int option) list"
  online :: bool
  info_stats :: string
  info_memory :: string
  sent :: "command list"

definition send :: "command \<Rightarrow> memory_client \<Rightarrow> memory_client" where
  "send cmd c = c\<lparr>sent := sent c @ [cmd]\<rparr>"

definition closed_error :: error where
  "closed_error = ClientError ''Connection is closed.''"

definition store_entry :: "string \<Rightarrow> string \<Rightarrow> int option \<Rightarrow> memory_client \<Rightarrow> memory_client" where
  "store_entry k v t c = c\<lparr>entries := (k, v, t) # filter (\<lambda>e. fst e \<noteq> k) (entries c)\<rparr>"

text \<open>A pattern that ends in \<open>*\<close> matches the keys that start with the text before it.\<close>

definition key_matches :: "string \<Rightarrow> string \<Rightarrow> bool" where
  "key_matches pat k =
     (if pat \<noteq> [] \<and> last pat = CHR ''*'' then take (length pat - 1) k = butlast pat else k = pat)"

definition memory_ops :: "memory_client client_ops" where
  "memory_ops =
     \<lparr>c_get = (\<lambda>c k. if online c then (Inr (map_option fst (map_of (entries c) k)), send (GET k) c)
                      else (Inl closed_error, send (GET k) c)),
      c_set = (\<lambda>c k v. if online c then (Inr (), store_entry k v None (send (SET k v) c))
                        else (Inl closed_error, send (SET k v) c)),
      c_setex = (\<lambda>c k t v. if online c then (Inr (), store_entry k v (Some t) (send (SETEX k t v) c))
                            else (Inl closed_error, send (SETEX k t v) c)),
      c_del = (\<lambda>c ks. if online c
                       then (Inr (), (send (DEL ks) c)\<lparr>entries := filter (\<lambda>e. fst e \<notin> set ks) (entries c)\<rparr>)
                       else (Inl closed_error, send (DEL ks) c)),
      c_keys = (\<lambda>c pat. if online c
                         then (Inr (filter (key_matches pat) (map fst (entries c))), send (KEYS pat) c)
                         else (Inl closed_error, send (KEYS pat) c)),
      c_info = (\<lambda>c sect. if online c
                          then (Inr (if sect = ''stats'' then info_stats c
                                     else if sect = ''memory'' then info_memory c else []),
                                send (INFO sect) c)
                          else (Inl closed_error, send (INFO sect) c)),
      c_dbsize = (\<lambda>c. if online c then (Inr (length (entries c)), send DBSIZE c)
                       else (Inl closed_error, send DBSIZE c)),
      c_config = (\<lambda>c arg. if online c then (Inr (), send (CONFIG arg) c)
                           else (Inl closed_error, send (CONFIG arg) c))\<rparr>"

text \<open>
  \<open>INFO\<close> texts as a Redis server prints them, lines ended by carriage return and line
  feed, with the figures of the README's sample response.
\<close>

definition crlf :: string where
  "crlf = [CHR 0x0D, CHR 0x0A]"

definition sample_stats :: string where
  "sample_stats =
     ''# Stats'' @ crlf @ ''total_commands_processed:10127'' @ crlf
       @ ''keyspace_hits:8542'' @ crlf @ ''keyspace_misses:1458'' @ crlf"

definition sample_memory :: string where
  "sample_memory =
     ''# Memory'' @ crlf @ ''used_memory:4404019'' @ crlf @ ''used_memory_human:4.20M'' @ crlf"

definition empty_client :: memory_client where
  "empty_client =
     \<lparr>entries = [], online = True, info_stats = sample_stats, info_memory = sample_memory, sent = []\<rparr>"

text \<open>A service that has seen \<open>connect\<close>, and one whose connection closed afterwards.\<close>

definition connected_service :: "memory_client redis_service" where
  "connected_service = on_connect \<lparr>client = empty_client, isConnected = False, logger = []\<rparr>"

definition closed_service :: "memory_client redis_service" where
  "closed_service = on_close (connected_service\<lparr>client := empty_client\<lparr>online := False\<rparr>\<rparr>)"

text \<open>
  A service whose connection has dropped while neither \<open>error\<close> nor \<open>close\<close> has been
  delivered yet: the flag still says connected and every command is rejected.
\<close>

definition stale_service :: "memory_client redis_service" where
  "stale_service = connected_service\<lparr>client := empty_client\<lparr>online := False\<rparr>\<rparr>"

text \<open>
  \<open>sample_json\<close> agrees with \<open>JSON.stringify\<close> on the empty array, the empty object and
  \<open>sample_user\<close>, and with \<open>JSON.parse\<close> on their texts, on \<open>null\<close> and on the text \<open>{\<close>,
  which is not JSON and makes \<open>JSON.parse\<close> throw. The examples use no other value and
  no other text.
\<close>

definition sample_user :: jsval where
  "sample_user = JObj [(''id'', JStr ''42''), (''name'', JStr ''Ada'')]"

definition sample_user_text :: string where
  "sample_user_text = [CHR 0x7B, CHR 0x22] @ ''id'' @ [CHR 0x22, CHR 0x3A, CHR 0x22] @ ''42''
     @ [CHR 0x22, CHR 0x2C, CHR 0x22] @ ''name'' @ [CHR 0x22, CHR 0x3A, CHR 0x22] @ ''Ada''
     @ [CHR 0x22, CHR 0x7D]"

definition sample_json :: json where
  "sample_json =
     \<lparr>JSON_stringify = (\<lambda>v. if v = JArr [] then ''[]''
                             else if v = JObj [] then ''{}''
                             else if v = sample_user then sample_user_text
                             else ''null''),
      JSON_parse = (\<lambda>t. if t = ''[]'' then Inr (JArr [])
                         else if t = ''{}'' then Inr (JObj [])
                         else if t = ''null'' then Inr JNull
                         else if t = sample_user_text then Inr sample_user
                         else Inl SyntaxError)\<rparr>"

text \<open>
  The world of the examples is the number of times the handler has run; the handler
  counts its run and returns a fixed value, or fails.
\<close>

definition returning :: "jsval \<Rightarrow> nat call_handler" where
  "returning v w = (Inr v, Suc w)"

definition failing :: "error \<Rightarrow> nat call_handler" where
  "failing e w = (Inl e, Suc w)"

definition sample_app :: "memory_client redis_service \<Rightarrow> (memory_client, nat) app" where
  "sample_app rs = \<lparr>redis = rs, metrics = \<lparr>hits = 0, misses = 0\<rparr>, interceptor_logger = [], world = 0\<rparr>"

definition user_42 :: execution_context where
  "user_42 =
     \<lparr>cache_metadata = Some findOne_cached,
      getRequest = \<lparr>params = [''id'' \<mapsto> ''42''], query = Map.empty\<rparr>\<rparr>"

text \<open>
  Two clients on which one command of \<open>getMetrics\<close> is rejected while the others are
  answered.
\<close>

definition no_dbsize_ops :: "memory_client client_ops" where
  "no_dbsize_ops =
     memory_ops\<lparr>c_dbsize := (\<lambda>c. (Inl (ClientError ''ERR unknown command''), send DBSIZE c))\<rparr>"

definition no_memory_ops :: "memory_client client_ops" where
  "no_memory_ops =
     memory_ops\<lparr>c_info := (\<lambda>c sect.
        if sect = ''memory'' then (Inl (ClientError ''ERR unknown section''), send (INFO sect) c)
        else c_info memory_ops c sect)\<rparr>"

text \<open>
  \<open>binary64\<close> is the arithmetic of the language on the numbers the examples meet: a
  number is the exact rational it stands for, and every operation gives the exact
  result rounded to the nearest number with a significand of 53 bits, the even one on a
  tie (\<open>to_double\<close>). It leaves out what no example reaches: \<open>Infinity\<close>, \<open>NaN\<close>, negative
  zero, numbers too small for a full significand, division by zero, \<open>toFixed\<close> of a
  negative number or of one from \<open>10^21\<close> up, \<open>parseInt\<close> of more than 20 digits, and
  texts that are not digits with at most one point.
\<close>

fun bit_length :: "nat \<Rightarrow> nat" where
  "bit_length n = (if n = 0 then 0 else Suc (bit_length (n div 2)))"

declare bit_length.simps [simp del]

definition pow2 :: "int \<Rightarrow> rat" where
  "pow2 k = (if 0 \<le> k then 2 ^ nat k else 1 / 2 ^ nat (- k))"

text \<open>The exponent \<open>e\<close> of a positive number: \<open>2^e \<le> x < 2^(e + 1)\<close>.\<close>

definition binary_exponent :: "rat \<Rightarrow> int" where
  "binary_exponent x =
     (if 1 \<le> x then int (bit_length (nat \<lfloor>x\<rfloor>)) - 1
      else - int (bit_length (nat (\<lceil>1 / x\<rceil> - 1))))"

definition nearest_even :: "rat \<Rightarrow> int" where
  "nearest_even m =
     (let f = \<lfloor>m\<rfloor>; r = m - of_int f
      in if r < 1 / 2 \<or> (r = 1 / 2 \<and> even f) then f else f + 1)"

definition to_double :: "rat \<Rightarrow> rat" where
  "to_double x =
     (if x = 0 then 0
      else let u = pow2 (binary_exponent \<bar>x\<bar> - 52)
           in sgn x * of_int (nearest_even (\<bar>x\<bar> / u)) * u)"

definition digit_value :: "char \<Rightarrow> nat" where
  "digit_value c = length (takeWhile (\<lambda>d. d \<noteq> c) ''0123456789'')"

definition digits_value :: "string \<Rightarrow> nat" where
  "digits_value ds = foldl (\<lambda>n c. 10 * n + digit_value c) 0 ds"

text \<open>The exact value of a text of digits, a point and digits.\<close>

definition decimal_value :: "string \<Rightarrow> rat" where
  "decimal_value t =
     (let whole = takeWhile is_digit t;
          part = (case dropWhile is_digit t of
                    [] \<Rightarrow> []
                  | c # ds \<Rightarrow> if c = CHR ''.'' then takeWhile is_digit ds else [])
      in of_nat (digits_value whole) + of_nat (digits_value part) / 10 ^ length part)"

text \<open>
  \<open>x.toFixed(digits)\<close> for \<open>x\<close> from 0 up to \<open>10^21\<close>: the integer \<open>n\<close> with \<open>n / 10^digits\<close> nearest to
  \<open>x\<close>, the larger one on a tie, printed with the point \<open>digits\<close> places from the right.
\<close>

definition fixed_text :: "rat \<Rightarrow> nat \<Rightarrow> string" where
  "fixed_text x digits =
     (let n = nat \<lfloor>x * 10 ^ digits + 1 / 2\<rfloor>;
          part = string_of_nat (n mod 10 ^ digits)
      in if digits = 0 then string_of_nat n
         else string_of_nat (n div 10 ^ digits) @ ''.''
                @ replicate (digits - length part) (CHR ''0'') @ part)"

definition binary64 :: "rat number_ops" where
  "binary64 =
     \<lparr>parseInt = (\<lambda>t. to_double (of_nat (digits_value t))),
      parseFloat = (\<lambda>t. to_double (decimal_value t)),
      toFixed = fixed_text,
      num_of = (\<lambda>n. to_double (of_nat n)),
      num_add = (\<lambda>a b. to_double (a + b)),
      num_div = (\<lambda>a b. to_double (a / b)),
      num_mul = (\<lambda>a b. to_double (a * b)),
      num_gt = (\<lambda>a b. b < a)\<rparr>"

text \<open>
  A \<open>json\<close> that, besides what \<open>sample_json\<close> does, agrees with the language on the array
  that holds \<open>undefined\<close>: \<open>JSON.stringify([undefined])\<close> is the text \<open>[null]\<close>, and
  \<open>JSON.parse\<close> of that text is the array that holds \<open>null\<close>.
\<close>

definition undefined_json :: json where
  "undefined_json =
     \<lparr>JSON_stringify = (\<lambda>v. if v = JArr [JUndefined] then ''[null]''
                             else JSON_stringify sample_json v),
      JSON_parse = (\<lambda>t. if t = ''[null]'' then Inr (JArr [JNull])
                         else JSON_parse sample_json t)\<rparr>"

text \<open>The binding of \<open>findOne\<close> with a TTL of 0.\<close>

definition user_42_no_ttl :: execution_context where
  "user_42_no_ttl = user_42\<lparr>cache_metadata := Some (findOne_cached\<lparr>ttl := 0\<rparr>)\<rparr>"

text \<open>
  Two states of the examples: a cache that holds the entry of user 42 as the interceptor
  writes it, and a cache that holds a text that is not JSON under the same key.
\<close>

definition warm_app :: "(memory_client, nat) app" where
  "warm_app =
     sample_app (connected_service
       \<lparr>client := empty_client\<lparr>entries := [(''app:v1:user:42'', sample_user_text, Some 300)]\<rparr>\<rparr>)"

definition corrupt_app :: "(memory_client, nat) app" where
  "corrupt_app =
     sample_app (connected_service
       \<lparr>client := empty_client\<lparr>entries := [(''app:v1:user:42'', ''{'', Some 300)]\<rparr>\<rparr>)"

definition third_stats :: string where
  "third_stats = ''keyspace_hits:1'' @ crlf @ ''keyspace_misses:2'' @ crlf"

definition zero_stats :: string where
  "zero_stats = ''keyspace_hits:0'' @ crlf @ ''keyspace_misses:0'' @ crlf"

definition seventh_stats :: string where
  "seventh_stats = ''keyspace_hits:23'' @ crlf @ ''keyspace_misses:137'' @ crlf"

section \<open>Notions used in the statements\<close>

text \<open>
  What \<open>getMetrics\<close> reads out of an \<open>INFO\<close> text: the digits after a counter's name
  (the text \<open>0\<close> when the counter is not there) and the text after a field's name.
\<close>

definition info_digits :: "string \<Rightarrow> string \<Rightarrow> string" where
  "info_digits lit info =
     (case regex_capture lit is_digit info of Some grp \<Rightarrow> grp | None \<Rightarrow> ''0'')"

definition info_text :: "string \<Rightarrow> string \<Rightarrow> string" where
  "info_text lit info =
     (case regex_capture lit not_line_terminator info of
        None \<Rightarrow> ''Unknown''
      | Some grp \<Rightarrow> (if trim grp = [] then ''Unknown'' else trim grp))"

text \<open>The property names of the snapshot a call of \<open>getMetrics\<close> returned.\<close>

fun snapshot_fields :: "error + (string \<times> 'n property) list \<Rightarrow> string list" where
  "snapshot_fields (Inr obj) = map fst obj"
| "snapshot_fields (Inl e) = []"

lemmas key_defs = build_def buildList_def pattern_def NAMESPACE_def VERSION_def no_list_params_def

lemmas double_defs =
  memory_ops_def send_def closed_error_def store_entry_def key_matches_def crlf_def
  sample_stats_def sample_memory_def empty_client_def connected_service_def closed_service_def
  stale_service_def sample_user_def sample_user_text_def sample_json_def returning_def
  failing_def sample_app_def user_42_def findOne_cached_def CacheTTL_USER_def warm_app_def
  corrupt_app_def third_stats_def zero_stats_def seventh_stats_def undefined_json_def user_42_no_ttl_def

lemmas redis_defs =
  get_def set_value_def del_def keys_def isHealthy_def getClient_def write_log_def
  on_connect_def on_error_def on_close_def

lemmas interceptor_defs = intercept_def tap_callback_def debug_def Let_def

lemmas metrics_defs =
  getMetrics_def getMemoryUsage_def resetMetrics_def Let_def is_digit_def
  not_line_terminator_def trim_def is_space_def info_digits_def info_text_def

section \<open>Decimal digits and rounding\<close>

lemma is_digit_nth: "d < 10 \<Longrightarrow> is_digit (''0123456789'' ! d)"
proof -
  assume "d < 10"
  then have "d \<in> {0, 1, 2, 3, 4, 5, 6, 7, 8, 9}" by auto
  then show ?thesis by (auto simp: is_digit_def)
qed

lemma string_of_nat_digits: "c \<in> set (string_of_nat n) \<Longrightarrow> is_digit c"
proof (induction n rule: string_of_nat.induct)
  case (1 n)
  show ?case
  proof (cases "n < 10")
    case True
    with 1(2) show ?thesis
      by (subst (asm) string_of_nat.simps) (simp add: is_digit_nth)
  next
    case False
    with 1 show ?thesis
      by (subst (asm) (2) string_of_nat.simps) (auto simp: is_digit_nth)
  qed
qed

lemma string_of_nat_nonempty: "string_of_nat n \<noteq> []"
  by (subst string_of_nat.simps) simp

lemma digit_value_nth: "d < 10 \<Longrightarrow> digit_value (''0123456789'' ! d) = d"
proof -
  assume "d < 10"
  then have "d \<in> {0, 1, 2, 3, 4, 5, 6, 7, 8, 9}" by auto
  then show ?thesis by (auto simp: digit_value_def)
qed

lemma digits_value_snoc: "digits_value (ds @ [c]) = 10 * digits_value ds + digit_value c"
  by (simp add: digits_value_def)

text \<open>The digits a number is printed with have the number as their value.\<close>

lemma digits_value_string_of_nat: "digits_value (string_of_nat n) = n"
proof (induction n rule: string_of_nat.induct)
  case (1 n)
  show ?case
  proof (cases "n < 10")
    case True
    then show ?thesis
      by (subst string_of_nat.simps) (simp add: digits_value_def digit_value_nth)
  next
    case False
    with 1 have "digits_value (string_of_nat (n div 10)) = n div 10" by simp
    with False show ?thesis
      by (subst string_of_nat.simps) (simp add: digits_value_snoc digit_value_nth)
  qed
qed

lemma floor_rat_numeral: "\<lfloor>numeral a / numeral b :: rat\<rfloor> = numeral a div numeral b"
  by (metis floor_divide_of_int_eq of_int_numeral)

lemma ceiling_rat_numeral:
  "\<lceil>numeral a / numeral b :: rat\<rceil> = - ((- numeral a) div numeral b)"
proof -
  have "\<lceil>numeral a / numeral b :: rat\<rceil>
      = - \<lfloor>of_int (- numeral a) / of_int (numeral b) :: rat\<rfloor>"
    by (simp add: ceiling_def)
  then show ?thesis
    by (simp only: floor_divide_of_int_eq)
qed

lemmas number_defs =
  binary64_def to_double_def binary_exponent_def pow2_def nearest_even_def bit_length.simps
  digit_value_def digits_value_def decimal_value_def fixed_text_def string_of_nat.simps
  floor_rat_numeral ceiling_rat_numeral

text \<open>
  \<open>binary64\<close> on some numbers whose floating-point results are known: a third, a tenth
  plus two tenths, an integer above \<open>2^53\<close>, and \<open>23 / 160 * 100\<close>, which is below 14.375
  and is printed \<open>14.37\<close>.
\<close>

lemma binary64_examples:
  "num_div binary64 1 3 = 6004799503160661 / 2 ^ 54"
  "num_add binary64 (parseFloat binary64 ''0.1'') (parseFloat binary64 ''0.2'')
     = 1351079888211149 / 2 ^ 52"
  "parseInt binary64 ''9007199254740993'' = 9007199254740992"
  "num_mul binary64 (num_div binary64 23 160) 100 = 8092405580431359 / 2 ^ 49"
  "toFixed binary64 (num_mul binary64 (num_div binary64 23 160) 100) 2 = ''14.37''"
  "toFixed binary64 (num_mul binary64 (num_div binary64 1 3) 100) 2 = ''33.33''"
  "toFixed binary64 0 2 = ''0.00''"
  "parseFloat binary64 ''0.00'' = 0"
  by (simp_all add: number_defs is_digit_def Let_def)

section \<open>The key builder\<close>

lemma joined_equal:
  "r @ c # a = r' @ c # b \<longleftrightarrow>
     (r = r' \<and> a = b)
     \<or> (\<exists>x. r' = r @ c # x \<and> a = x @ c # b)
     \<or> (\<exists>x. r = r' @ c # x \<and> b = x @ c # a)"
  (is "?L \<longleftrightarrow> ?R")
proof
  assume ?L
  then obtain us where
    "(r = r' @ us \<and> us @ c # a = c # b) \<or> (r @ us = r' \<and> c # a = us @ c # b)"
    by (auto simp: append_eq_append_conv2)
  then show ?R
    by (cases us) (auto simp: Cons_eq_append_conv)
next
  assume ?R
  then show ?L by auto
qed

text \<open>
  Claim C7, as the code has it. \<open>build\<close> is a function of the resource and of the text of
  the identifier, so the same pair always gives the same key, and two identifiers with
  the same text (the number 1 and the string \<open>1\<close>) give the same key. It joins the two
  with a colon and escapes nothing. Two pairs get the same key exactly when they are the
  same pair, or when one resource is the other one followed by a colon and a text \<open>x\<close>
  while the identifier that goes with the shorter resource is \<open>x\<close>, a colon and the
  other identifier. So a collision of different pairs needs a colon in a resource and a
  colon in an identifier: \<open>build\<close> is injective on the pairs whose resources contain no
  colon, on the pairs whose identifiers contain no colon, and no other pair collides
  with a pair that contains no colon at all.
\<close>

theorem C7_build_collisions_need_two_colons:
  "(build r a = build r' b \<longleftrightarrow>
      (r = r' \<and> a = b)
      \<or> (\<exists>x. r' = r @ '':'' @ x \<and> a = x @ '':'' @ b)
      \<or> (\<exists>x. r = r' @ '':'' @ x \<and> b = x @ '':'' @ a))
   \<and> (CHR '':'' \<notin> set r \<and> CHR '':'' \<notin> set r' \<longrightarrow>
        (build r a = build r' b \<longleftrightarrow> r = r' \<and> a = b))
   \<and> (CHR '':'' \<notin> set a \<and> CHR '':'' \<notin> set b \<longrightarrow>
        (build r a = build r' b \<longleftrightarrow> r = r' \<and> a = b))
   \<and> (CHR '':'' \<notin> set r \<and> CHR '':'' \<notin> set a \<longrightarrow>
        (build r a = build r' b \<longleftrightarrow> r = r' \<and> a = b))"
proof -
  have e: "build r a = build r' b \<longleftrightarrow>
      (r = r' \<and> a = b)
      \<or> (\<exists>x. r' = r @ '':'' @ x \<and> a = x @ '':'' @ b)
      \<or> (\<exists>x. r = r' @ '':'' @ x \<and> b = x @ '':'' @ a)"
    using joined_equal [of r "CHR '':''" a r' b] by (simp add: build_def)
  show ?thesis
    unfolding e by auto
qed

theorem C7_build_collisions_witness:
  "CHR '':'' \<notin> set ''user'' \<and> CHR '':'' \<notin> set ''users''
   \<and> build ''user'' ''a:1'' \<noteq> build ''users'' ''a:1''
   \<and> CHR '':'' \<notin> set ''42'' \<and> CHR '':'' \<notin> set ''43''
   \<and> build ''a:b'' ''42'' \<noteq> build ''a:b'' ''43''
   \<and> build ''user'' ''42'' \<noteq> build ''a:b'' ''c''
   \<and> build ''user'' ''42'' = ''app:v1:user:42''"
  using C7_build_collisions_need_two_colons [of "''user''" "''a:1''" "''users''" "''a:1''"]
    C7_build_collisions_need_two_colons [of "''a:b''" "''42''" "''a:b''" "''43''"]
    C7_build_collisions_need_two_colons [of "''user''" "''42''" "''a:b''" "''c''"]
  by (simp add: key_defs)

text \<open>
  Claim C7, as the specification states it, fails: a colon inside the resource moves
  the boundary between resource and identifier, and two different pairs collide.
\<close>

theorem C7_build_collision:
  "(''a:b'', ''c'') \<noteq> (''a'', ''b:c'') \<and> build ''a:b'' ''c'' = build ''a'' ''b:c''"
  by (simp add: build_def)

text \<open>
  Claim C8: for every resource, \<open>buildList\<close> with no pagination properties gives the key
  that \<open>buildList\<close> gives with page 1 and limit 10; so does a call that leaves the
  argument out.
\<close>

theorem C8_buildList_defaults:
  "buildList resource (Some \<lparr>page = None, limit = None\<rparr>)
     = buildList resource (Some \<lparr>page = Some 1, limit = Some 10\<rparr>)
   \<and> buildList resource None = buildList resource (Some \<lparr>page = Some 1, limit = Some 10\<rparr>)
   \<and> buildList resource (Some \<lparr>page = Some 1, limit = Some 10\<rparr>)
     = ''app:v1:'' @ resource @ '':list:page-1:limit-10''"
  by (simp add: key_defs string_of_int_def string_of_nat.simps)

section \<open>The backend client never throws\<close>

text \<open>
  Claim C3: \<open>get\<close>, \<open>set\<close>, \<open>del\<close> and \<open>keys\<close> never let an exception out. While the
  health flag is false each of them returns its fallback and leaves the client as it
  was, whatever the client library would have done (the outcome is the same for any
  other behaviour \<open>ops'\<close> of the library); when the flag is true and the library call
  throws, \<open>get\<close> returns \<open>null\<close>, \<open>set\<close> and \<open>del\<close> return normally, and \<open>keys\<close> returns
  the empty list.
\<close>

theorem C3_backend_client_never_throws:
  "(\<forall>e. fst (get ops this key) \<noteq> Inl e)
   \<and> (\<forall>e. fst (set_value ops this key val ttlSeconds) \<noteq> Inl e)
   \<and> (\<forall>e. fst (del ops this dkey) \<noteq> Inl e)
   \<and> (\<forall>e. fst (keys ops this pat) \<noteq> Inl e)
   \<and> (\<not> isHealthy this \<longrightarrow>
        fst (get ops this key) = Inr None
        \<and> client (snd (get ops this key)) = client this
        \<and> get ops this key = get ops' this key
        \<and> fst (set_value ops this key val ttlSeconds) = Inr ()
        \<and> client (snd (set_value ops this key val ttlSeconds)) = client this
        \<and> set_value ops this key val ttlSeconds = set_value ops' this key val ttlSeconds
        \<and> del ops this dkey = (Inr (), this)
        \<and> keys ops this pat = (Inr [], this))
   \<and> (isHealthy this \<and> fst (c_get ops (client this) key) = Inl e1 \<longrightarrow>
        fst (get ops this key) = Inr None)
   \<and> (isHealthy this \<and> fst (c_setex ops (client this) key t val) = Inl e2 \<and> t \<noteq> 0 \<longrightarrow>
        fst (set_value ops this key val (Some t)) = Inr ())
   \<and> (isHealthy this \<and> fst (c_set ops (client this) key val) = Inl e3 \<longrightarrow>
        fst (set_value ops this key val None) = Inr ())
   \<and> (isHealthy this \<and> fst (c_del ops (client this) ks) = Inl e4 \<longrightarrow>
        fst (del ops this (ManyKeys ks)) = Inr () \<and> fst (del ops this (OneKey key)) = Inr ())
   \<and> (isHealthy this \<and> fst (c_keys ops (client this) pat) = Inl e5 \<longrightarrow>
        fst (keys ops this pat) = Inr [])"
  by (auto simp: get_def set_value_def del_def keys_def write_log_def
      split: prod.splits sum.splits option.splits del_arg.splits)

theorem C3_backend_client_witness:
  "\<not> isHealthy closed_service
   \<and> get memory_ops closed_service ''k'' =
       (Inr None, write_log WARN ''Redis unavailable, skipping GET for key: k'' closed_service)
   \<and> keys memory_ops closed_service ''k*'' = (Inr [], closed_service)
   \<and> isHealthy stale_service
   \<and> fst (c_get memory_ops (client stale_service) ''k'') = Inl closed_error
   \<and> fst (get memory_ops stale_service ''k'') = Inr None
   \<and> fst (c_setex memory_ops (client stale_service) ''k'' 60 ''[]'') = Inl closed_error
   \<and> fst (set_value memory_ops stale_service ''k'' ''[]'' (Some 60)) = Inr ()
   \<and> fst (c_set memory_ops (client stale_service) ''k'' ''[]'') = Inl closed_error
   \<and> fst (set_value memory_ops stale_service ''k'' ''[]'' None) = Inr ()
   \<and> fst (c_del memory_ops (client stale_service) [''k'']) = Inl closed_error
   \<and> fst (del memory_ops stale_service (ManyKeys [''k''])) = Inr ()
   \<and> fst (c_keys memory_ops (client stale_service) ''k*'') = Inl closed_error
   \<and> fst (keys memory_ops stale_service ''k*'') = Inr []"
  using C3_backend_client_never_throws [of memory_ops closed_service "''k''" "''[]''" "Some 60"
      "ManyKeys [''k'']" "''k*''" memory_ops closed_error 60 closed_error closed_error "[''k'']" closed_error
      closed_error]
    C3_backend_client_never_throws [of memory_ops stale_service "''k''" "''[]''" "Some 60"
      "ManyKeys [''k'']" "''k*''" memory_ops closed_error 60 closed_error closed_error "[''k'']" closed_error
      closed_error]
  by (simp add: redis_defs double_defs)


section \<open>The two paths of the interceptor\<close>

lemma intercept_hit:
  assumes "cache_metadata ctx = Some cfg"
    and "keyBuilder cfg (params (getRequest ctx)) (query (getRequest ctx)) = key"
    and "get ops (redis s) key = (Inr (Some payload), rs)"
    and "payload \<noteq> []"
  shows "intercept J ops ctx next_handle s =
           (JSON_parse J payload, debug (''Cache HIT: '' @ key) (s\<lparr>redis := rs\<rparr>))"
  using assms by (simp add: intercept_def)

lemma intercept_miss:
  assumes "cache_metadata ctx = Some cfg"
    and "keyBuilder cfg (params (getRequest ctx)) (query (getRequest ctx)) = key"
    and "get ops (redis s) key = (Inr cachedData, rs)"
    and "truthy_string cachedData = None"
    and "next_handle (world s) = (r, w')"
  shows "intercept J ops ctx next_handle s =
           (r, case r of
                 Inl e \<Rightarrow> (debug (''Cache MISS: '' @ key) (s\<lparr>redis := rs\<rparr>))\<lparr>world := w'\<rparr>
               | Inr data \<Rightarrow> tap_callback J ops cfg key data
                               ((debug (''Cache MISS: '' @ key) (s\<lparr>redis := rs\<rparr>))\<lparr>world := w'\<rparr>))"
  using assms by (simp add: intercept_def debug_def split: sum.splits)

lemma tap_callback_truthy:
  assumes "truthy data"
  shows "redis (tap_callback J ops cfg key data s) =
           snd (set_value ops (redis s) key (JSON_stringify J data) (Some (ttl cfg)))"
    and "world (tap_callback J ops cfg key data s) = world s"
    and "metrics (tap_callback J ops cfg key data s) = metrics s"
  using assms by (auto simp: tap_callback_def debug_def split: prod.splits sum.splits)

lemma tap_callback_falsy:
  assumes "\<not> truthy data"
  shows "tap_callback J ops cfg key data s = s"
  using assms by (simp add: tap_callback_def)

section \<open>Lookup: hit and miss\<close>

lemma intercept_hit_parse_error:
  assumes "cache_metadata ctx = Some cfg"
    and "keyBuilder cfg (params (getRequest ctx)) (query (getRequest ctx)) = key"
    and "get ops (redis s) key = (Inr (Some payload), rs)"
    and "payload \<noteq> []"
    and "JSON_parse J payload = Inl e"
  shows "fst (intercept J ops ctx next_handle s) = Inl e"
    and "world (snd (intercept J ops ctx next_handle s)) = world s"
  using intercept_hit [of ctx cfg key ops s payload rs J next_handle, OF assms(1-4)] assms(5)
  by (simp_all add: debug_def)

text \<open>
  Claim C1 fails on the code: a payload that \<open>JSON.parse\<close> rejects makes the request
  fail with that error, and the handler is not run (\<open>intercept_hit_parse_error\<close>). Here
  the entry stored under the key of user 42 is the text \<open>{\<close>, which is not JSON. The
  request fails with the \<open>SyntaxError\<close> and the world still counts no run of the
  handler, whereas the same request against an empty cache runs the handler once and
  returns its result.
\<close>

theorem C1_corrupt_entry_fails_the_request:
  "fst (intercept sample_json memory_ops user_42 (returning sample_user) corrupt_app) = Inl SyntaxError
   \<and> world (snd (intercept sample_json memory_ops user_42 (returning sample_user) corrupt_app)) = 0
   \<and> fst (intercept sample_json memory_ops user_42 (returning sample_user)
            (sample_app connected_service)) = Inr sample_user
   \<and> world (snd (intercept sample_json memory_ops user_42 (returning sample_user)
            (sample_app connected_service))) = 1"
  by (simp add: interceptor_defs redis_defs double_defs key_defs)

text \<open>
  Claim C2, as the code has it. For a handler with a cache policy: when the lookup
  returns a non-empty payload that deserializes to \<open>v\<close>, the response is \<open>v\<close> and the
  state afterwards is the state before with the client as the lookup left it and one
  more line, \<open>Cache HIT\<close>, in the interceptor's log; the handler does not occur in the
  outcome, and the world and the counters of the metrics service are as before. When
  the lookup returns nothing (or the empty string), the outcome is the handler's, the
  log goes on with \<open>Cache MISS\<close>, and the counters of the metrics service are as before:
  the interceptor never calls \<open>recordHit\<close> or \<open>recordMiss\<close>.
\<close>

theorem C2_hit_and_miss_are_only_logged:
  assumes "cache_metadata ctx = Some cfg"
    and "keyBuilder cfg (params (getRequest ctx)) (query (getRequest ctx)) = key"
  shows "(get ops (redis s) key = (Inr (Some payload), rs) \<and> payload \<noteq> []
            \<and> JSON_parse J payload = Inr v \<longrightarrow>
            intercept J ops ctx next_handle s =
              (Inr v, s\<lparr>redis := rs,
                         interceptor_logger := interceptor_logger s @ [(DEBUG, ''Cache HIT: '' @ key)]\<rparr>)
            \<and> world (snd (intercept J ops ctx next_handle s)) = world s
            \<and> metrics (snd (intercept J ops ctx next_handle s)) = metrics s)
       \<and> (get ops (redis s) key = (Inr cachedData, rs') \<and> truthy_string cachedData = None \<longrightarrow>
            fst (intercept J ops ctx next_handle s) = fst (next_handle (world s))
            \<and> world (snd (intercept J ops ctx next_handle s)) = snd (next_handle (world s))
            \<and> metrics (snd (intercept J ops ctx next_handle s)) = metrics s
            \<and> take (Suc (length (interceptor_logger s)))
                 (interceptor_logger (snd (intercept J ops ctx next_handle s)))
                = interceptor_logger s @ [(DEBUG, ''Cache MISS: '' @ key)])"
proof (intro conjI impI)
  assume h: "get ops (redis s) key = (Inr (Some payload), rs) \<and> payload \<noteq> []
    \<and> JSON_parse J payload = Inr v"
  then have g: "get ops (redis s) key = (Inr (Some payload), rs)" and p: "payload \<noteq> []"
    by simp_all
  note i = intercept_hit [of ctx cfg key ops s payload rs J next_handle, OF assms g p]
  from h show "intercept J ops ctx next_handle s =
      (Inr v, s\<lparr>redis := rs,
                 interceptor_logger := interceptor_logger s @ [(DEBUG, ''Cache HIT: '' @ key)]\<rparr>)"
    by (simp add: i debug_def)
  show "world (snd (intercept J ops ctx next_handle s)) = world s"
    by (simp add: i debug_def)
  show "metrics (snd (intercept J ops ctx next_handle s)) = metrics s"
    by (simp add: i debug_def)
next
  assume h: "get ops (redis s) key = (Inr cachedData, rs') \<and> truthy_string cachedData = None"
  then have m: "get ops (redis s) key = (Inr cachedData, rs')" and t: "truthy_string cachedData = None"
    by simp_all
  obtain r w' where n: "next_handle (world s) = (r, w')"
    by (cases "next_handle (world s)")
  note i = intercept_miss [of ctx cfg key ops s cachedData rs' next_handle r w' J, OF assms m t n]
  show "fst (intercept J ops ctx next_handle s) = fst (next_handle (world s))"
    by (simp add: i n)
  show "world (snd (intercept J ops ctx next_handle s)) = snd (next_handle (world s))"
    by (cases r) (simp_all add: i n debug_def tap_callback_def split: prod.splits sum.splits)
  show "metrics (snd (intercept J ops ctx next_handle s)) = metrics s"
    by (cases r) (simp_all add: i n debug_def tap_callback_def split: prod.splits sum.splits)
  show "take (Suc (length (interceptor_logger s)))
      (interceptor_logger (snd (intercept J ops ctx next_handle s)))
      = interceptor_logger s @ [(DEBUG, ''Cache MISS: '' @ key)]"
    by (cases r) (simp_all add: i n debug_def tap_callback_def split: prod.splits sum.splits)
qed

theorem C2_hit_and_miss_witness:
  "cache_metadata user_42 = Some findOne_cached
   \<and> keyBuilder findOne_cached (params (getRequest user_42)) (query (getRequest user_42))
       = ''app:v1:user:42''
   \<and> fst (get memory_ops (redis warm_app) ''app:v1:user:42'') = Inr (Some sample_user_text)
   \<and> sample_user_text \<noteq> []
   \<and> JSON_parse sample_json sample_user_text = Inr sample_user
   \<and> fst (intercept sample_json memory_ops user_42 (failing (HandlerError ''unused'')) warm_app)
       = Inr sample_user
   \<and> world (snd (intercept sample_json memory_ops user_42 (failing (HandlerError ''unused'')) warm_app)) = 0
   \<and> metrics (snd (intercept sample_json memory_ops user_42 (failing (HandlerError ''unused'')) warm_app))
       = \<lparr>hits = 0, misses = 0\<rparr>
   \<and> fst (get memory_ops (redis (sample_app connected_service)) ''app:v1:user:42'') = Inr None
   \<and> truthy_string None = None
   \<and> fst (intercept sample_json memory_ops user_42 (returning sample_user) (sample_app connected_service))
       = Inr sample_user
   \<and> world (snd (intercept sample_json memory_ops user_42 (returning sample_user)
               (sample_app connected_service))) = 1
   \<and> metrics (snd (intercept sample_json memory_ops user_42 (returning sample_user)
               (sample_app connected_service))) = \<lparr>hits = 0, misses = 0\<rparr>"
  using C2_hit_and_miss_are_only_logged [of user_42 findOne_cached "''app:v1:user:42''" memory_ops
      warm_app sample_user_text "snd (get memory_ops (redis warm_app) ''app:v1:user:42'')"
      sample_json sample_user "failing (HandlerError ''unused'')" None
      "snd (get memory_ops (redis warm_app) ''app:v1:user:42'')"]
    C2_hit_and_miss_are_only_logged [of user_42 findOne_cached "''app:v1:user:42''" memory_ops
      "sample_app connected_service" sample_user_text
      "snd (get memory_ops (redis (sample_app connected_service)) ''app:v1:user:42'')"
      sample_json sample_user "returning sample_user" None
      "snd (get memory_ops (redis (sample_app connected_service)) ''app:v1:user:42'')"]
  by (simp add: interceptor_defs redis_defs double_defs key_defs)

text \<open>
  Claim C2, as the specification states it, fails: on a hit the response is the cached
  value and the handler is not run, but the counters of the metrics service are not
  the ones \<open>recordHit\<close> would leave.
\<close>

theorem C2_hit_does_not_record:
  "fst (intercept sample_json memory_ops user_42 (returning sample_user) warm_app) = Inr sample_user
   \<and> world (snd (intercept sample_json memory_ops user_42 (returning sample_user) warm_app)) = 0
   \<and> metrics (snd (intercept sample_json memory_ops user_42 (returning sample_user) warm_app))
       \<noteq> recordHit (metrics warm_app)"
  by (simp add: recordHit_def interceptor_defs redis_defs double_defs key_defs)


section \<open>Populate\<close>

text \<open>
  Claim C5, as the code has it. After a miss, a handler result that is an empty
  collection (the empty array or the empty object) is returned and handed to the
  backend client as \<open>set(key, JSON.stringify(result), ttl)\<close> with the derived key and the
  TTL of the policy. What the backend client does with it depends on its health flag and
  on the TTL: with the flag true and a TTL other than 0 it sends \<open>SETEX key ttl payload\<close>;
  with the flag true and a TTL of 0 it sends \<open>SET key payload\<close>, which sets no expiry;
  with the flag false it sends nothing and the client is as the lookup left it. A result
  that is \<open>null\<close> or \<open>undefined\<close> is returned and the backend client is left as the lookup
  left it: nothing is written.
\<close>

theorem C5_empty_collection_is_handed_to_set_null_is_not:
  assumes "cache_metadata ctx = Some cfg"
    and "keyBuilder cfg (params (getRequest ctx)) (query (getRequest ctx)) = key"
    and "get ops (redis s) key = (Inr cachedData, rs)"
    and "truthy_string cachedData = None"
  shows "((data = JArr [] \<or> data = JObj []) \<and> next_handle (world s) = (Inr data, w') \<longrightarrow>
            fst (intercept J ops ctx next_handle s) = Inr data
            \<and> redis (snd (intercept J ops ctx next_handle s))
                = snd (set_value ops rs key (JSON_stringify J data) (Some (ttl cfg)))
            \<and> (isHealthy rs \<and> ttl cfg \<noteq> 0 \<longrightarrow>
                 client (redis (snd (intercept J ops ctx next_handle s)))
                   = snd (c_setex ops (client rs) key (ttl cfg) (JSON_stringify J data)))
            \<and> (isHealthy rs \<and> ttl cfg = 0 \<longrightarrow>
                 client (redis (snd (intercept J ops ctx next_handle s)))
                   = snd (c_set ops (client rs) key (JSON_stringify J data)))
            \<and> (\<not> isHealthy rs \<longrightarrow>
                 client (redis (snd (intercept J ops ctx next_handle s))) = client rs))
       \<and> ((data' = JNull \<or> data' = JUndefined) \<and> next_handle (world s) = (Inr data', w') \<longrightarrow>
            fst (intercept J ops ctx next_handle s) = Inr data'
            \<and> redis (snd (intercept J ops ctx next_handle s)) = rs)"
proof (intro conjI impI)
  assume h: "(data = JArr [] \<or> data = JObj []) \<and> next_handle (world s) = (Inr data, w')"
  then have t: "truthy data" by auto
  from h have n: "next_handle (world s) = (Inr data, w')" by simp
  note i = intercept_miss [of ctx cfg key ops s cachedData rs next_handle "Inr data" w' J, OF assms n]
  show "fst (intercept J ops ctx next_handle s) = Inr data" by (simp add: i)
  show r: "redis (snd (intercept J ops ctx next_handle s))
      = snd (set_value ops rs key (JSON_stringify J data) (Some (ttl cfg)))"
    by (simp add: i tap_callback_truthy(1) [OF t] debug_def)
  {
    assume "isHealthy rs \<and> ttl cfg \<noteq> 0"
    then show "client (redis (snd (intercept J ops ctx next_handle s)))
        = snd (c_setex ops (client rs) key (ttl cfg) (JSON_stringify J data))"
      by (simp add: r set_value_def write_log_def split: prod.splits sum.splits)
  }
  {
    assume "isHealthy rs \<and> ttl cfg = 0"
    then show "client (redis (snd (intercept J ops ctx next_handle s)))
        = snd (c_set ops (client rs) key (JSON_stringify J data))"
      by (simp add: r set_value_def write_log_def split: prod.splits sum.splits)
  }
  {
    assume "\<not> isHealthy rs"
    then show "client (redis (snd (intercept J ops ctx next_handle s))) = client rs"
      by (simp add: r set_value_def write_log_def)
  }
next
  assume h: "(data' = JNull \<or> data' = JUndefined) \<and> next_handle (world s) = (Inr data', w')"
  then have t: "\<not> truthy data'" by auto
  from h have n: "next_handle (world s) = (Inr data', w')" by simp
  note i = intercept_miss [of ctx cfg key ops s cachedData rs next_handle "Inr data'" w' J, OF assms n]
  show "fst (intercept J ops ctx next_handle s) = Inr data'" by (simp add: i)
  show "redis (snd (intercept J ops ctx next_handle s)) = rs"
    by (simp add: i tap_callback_falsy [OF t] debug_def)
qed

theorem C5_empty_collection_witness:
  "cache_metadata user_42 = Some findOne_cached
   \<and> keyBuilder findOne_cached (params (getRequest user_42)) (query (getRequest user_42))
       = ''app:v1:user:42''
   \<and> fst (get memory_ops (redis (sample_app connected_service)) ''app:v1:user:42'') = Inr None
   \<and> truthy_string None = None
   \<and> returning (JArr []) (world (sample_app connected_service)) = (Inr (JArr []), 1)
   \<and> isHealthy (snd (get memory_ops (redis (sample_app connected_service)) ''app:v1:user:42''))
   \<and> ttl findOne_cached \<noteq> 0
   \<and> fst (intercept sample_json memory_ops user_42 (returning (JArr [])) (sample_app connected_service))
       = Inr (JArr [])
   \<and> entries (client (redis (snd (intercept sample_json memory_ops user_42 (returning (JArr []))
         (sample_app connected_service))))) = [(''app:v1:user:42'', ''[]'', Some 300)]
   \<and> sent (client (redis (snd (intercept sample_json memory_ops user_42 (returning (JArr []))
         (sample_app connected_service)))))
       = [GET ''app:v1:user:42'', SETEX ''app:v1:user:42'' 300 ''[]'']
   \<and> cache_metadata user_42_no_ttl = Some (findOne_cached\<lparr>ttl := 0\<rparr>)
   \<and> ttl (findOne_cached\<lparr>ttl := 0\<rparr>) = 0
   \<and> sent (client (redis (snd (intercept sample_json memory_ops user_42_no_ttl (returning (JObj []))
         (sample_app connected_service)))))
       = [GET ''app:v1:user:42'', SET ''app:v1:user:42'' ''{}'']
   \<and> \<not> isHealthy (snd (get memory_ops (redis (sample_app closed_service)) ''app:v1:user:42''))
   \<and> fst (get memory_ops (redis (sample_app closed_service)) ''app:v1:user:42'') = Inr None
   \<and> sent (client (redis (snd (intercept sample_json memory_ops user_42 (returning (JArr []))
         (sample_app closed_service))))) = []
   \<and> returning JNull (world (sample_app connected_service)) = (Inr JNull, 1)
   \<and> fst (intercept sample_json memory_ops user_42 (returning JNull) (sample_app connected_service))
       = Inr JNull
   \<and> entries (client (redis (snd (intercept sample_json memory_ops user_42 (returning JNull)
         (sample_app connected_service))))) = []
   \<and> sent (client (redis (snd (intercept sample_json memory_ops user_42 (returning JNull)
         (sample_app connected_service))))) = [GET ''app:v1:user:42'']"
  using C5_empty_collection_is_handed_to_set_null_is_not [of user_42 findOne_cached
      "''app:v1:user:42''" memory_ops "sample_app connected_service" None
      "snd (get memory_ops (redis (sample_app connected_service)) ''app:v1:user:42'')"
      "JArr []" "returning (JArr [])" 1 sample_json JNull]
    C5_empty_collection_is_handed_to_set_null_is_not [of user_42_no_ttl "findOne_cached\<lparr>ttl := 0\<rparr>"
      "''app:v1:user:42''" memory_ops "sample_app connected_service" None
      "snd (get memory_ops (redis (sample_app connected_service)) ''app:v1:user:42'')"
      "JObj []" "returning (JObj [])" 1 sample_json JNull]
    C5_empty_collection_is_handed_to_set_null_is_not [of user_42 findOne_cached
      "''app:v1:user:42''" memory_ops "sample_app closed_service" None
      "snd (get memory_ops (redis (sample_app closed_service)) ''app:v1:user:42'')"
      "JArr []" "returning (JArr [])" 1 sample_json JNull]
    C5_empty_collection_is_handed_to_set_null_is_not [of user_42 findOne_cached
      "''app:v1:user:42''" memory_ops "sample_app connected_service" None
      "snd (get memory_ops (redis (sample_app connected_service)) ''app:v1:user:42'')"
      "JArr []" "returning JNull" 1 sample_json JNull]
  by (simp add: interceptor_defs redis_defs double_defs key_defs)

text \<open>
  Claim C5, as the specification states it, fails: with the connection closed the
  lookup misses, the handler returns the empty array, and nothing is sent to the backend
  and nothing is stored; and under a policy with a TTL of 0 the empty object is stored
  with no expiry.
\<close>

theorem C5_empty_collection_not_stored_when_closed:
  "fst (intercept sample_json memory_ops user_42 (returning (JArr [])) (sample_app closed_service))
     = Inr (JArr [])
   \<and> sent (client (redis (snd (intercept sample_json memory_ops user_42 (returning (JArr []))
         (sample_app closed_service))))) = []
   \<and> entries (client (redis (snd (intercept sample_json memory_ops user_42 (returning (JArr []))
         (sample_app closed_service))))) = []
   \<and> entries (client (redis (snd (intercept sample_json memory_ops user_42_no_ttl (returning (JObj []))
         (sample_app connected_service))))) = [(''app:v1:user:42'', ''{}'', None)]"
  by (simp add: interceptor_defs redis_defs double_defs key_defs)

text \<open>
  Claim C6, as the code has it. After a miss, a handler result that is falsy (\<open>null\<close>,
  \<open>undefined\<close>, \<open>false\<close>, \<open>0\<close>, the empty string) is returned and nothing is written: the
  backend client is as the lookup left it. When the next lookup of the key is a miss
  again, as it is on a backend nobody else wrote to, the next identical request has the
  outcome of the handler run on the world the first run left: the handler runs again.
  An empty collection is not falsy (claim C5).
\<close>

theorem C6_falsy_result_is_not_cached:
  assumes "cache_metadata ctx = Some cfg"
    and "keyBuilder cfg (params (getRequest ctx)) (query (getRequest ctx)) = key"
    and "get ops (redis s) key = (Inr cachedData, rs)"
    and "truthy_string cachedData = None"
    and "next_handle (world s) = (Inr data, w')"
    and "\<not> truthy data"
  shows "fst (intercept J ops ctx next_handle s) = Inr data
       \<and> redis (snd (intercept J ops ctx next_handle s)) = rs
       \<and> world (snd (intercept J ops ctx next_handle s)) = w'
       \<and> (get ops rs key = (Inr cachedData2, rs2) \<and> truthy_string cachedData2 = None \<longrightarrow>
            fst (intercept J ops ctx next_handle2 (snd (intercept J ops ctx next_handle s)))
              = fst (next_handle2 w')
            \<and> world (snd (intercept J ops ctx next_handle2 (snd (intercept J ops ctx next_handle s))))
              = snd (next_handle2 w'))"
proof -
  let ?s1 = "snd (intercept J ops ctx next_handle s)"
  note i = intercept_miss [of ctx cfg key ops s cachedData rs next_handle "Inr data" w' J,
      OF assms(1-5)]
  have s1: "?s1 = (debug (''Cache MISS: '' @ key) (s\<lparr>redis := rs\<rparr>))\<lparr>world := w'\<rparr>"
    by (simp add: i tap_callback_falsy [OF assms(6)])
  have a: "fst (intercept J ops ctx next_handle s) = Inr data" by (simp add: i)
  have b: "redis ?s1 = rs" by (simp add: s1 debug_def)
  have c: "world ?s1 = w'" by (simp add: s1 debug_def)
  have d: "fst (intercept J ops ctx next_handle2 ?s1) = fst (next_handle2 w')
         \<and> world (snd (intercept J ops ctx next_handle2 ?s1)) = snd (next_handle2 w')"
    if g: "get ops rs key = (Inr cachedData2, rs2)" and t: "truthy_string cachedData2 = None"
  proof -
    obtain r2 w2 where n2: "next_handle2 (world ?s1) = (r2, w2)"
      by (cases "next_handle2 (world ?s1)")
    from g b have g': "get ops (redis ?s1) key = (Inr cachedData2, rs2)" by simp
    note j = intercept_miss [of ctx cfg key ops ?s1 cachedData2 rs2 next_handle2 r2 w2 J,
        OF assms(1,2) g' t n2]
    have "world (snd (intercept J ops ctx next_handle2 ?s1)) = w2"
      by (cases r2) (simp_all add: j debug_def tap_callback_def split: prod.splits sum.splits)
    moreover have "fst (intercept J ops ctx next_handle2 ?s1) = r2" by (simp add: j)
    ultimately show ?thesis using n2 c by simp
  qed
  from a b c d show ?thesis by blast
qed

theorem C6_falsy_result_witness:
  "cache_metadata user_42 = Some findOne_cached
   \<and> keyBuilder findOne_cached (params (getRequest user_42)) (query (getRequest user_42))
       = ''app:v1:user:42''
   \<and> fst (get memory_ops (redis (sample_app connected_service)) ''app:v1:user:42'') = Inr None
   \<and> truthy_string None = None
   \<and> returning JNull (world (sample_app connected_service)) = (Inr JNull, 1)
   \<and> \<not> truthy JNull
   \<and> fst (intercept sample_json memory_ops user_42 (returning JNull) (sample_app connected_service))
       = Inr JNull
   \<and> entries (client (redis (snd (intercept sample_json memory_ops user_42 (returning JNull)
         (sample_app connected_service))))) = []
   \<and> fst (get memory_ops
         (snd (get memory_ops (redis (sample_app connected_service)) ''app:v1:user:42''))
         ''app:v1:user:42'') = Inr None
   \<and> fst (intercept sample_json memory_ops user_42 (returning sample_user)
         (snd (intercept sample_json memory_ops user_42 (returning JNull) (sample_app connected_service))))
       = Inr sample_user
   \<and> world (snd (intercept sample_json memory_ops user_42 (returning sample_user)
         (snd (intercept sample_json memory_ops user_42 (returning JNull) (sample_app connected_service)))))
       = 2"
  using C6_falsy_result_is_not_cached [of user_42 findOne_cached "''app:v1:user:42''"
      memory_ops "sample_app connected_service" None
      "snd (get memory_ops (redis (sample_app connected_service)) ''app:v1:user:42'')"
      "returning JNull" JNull 1 sample_json None
      "snd (get memory_ops
         (snd (get memory_ops (redis (sample_app connected_service)) ''app:v1:user:42''))
         ''app:v1:user:42'')"
      "returning sample_user"]
  by (simp add: interceptor_defs redis_defs double_defs key_defs)

text \<open>
  Claim C6, as the specification states it, fails for the empty collection: an empty
  array returned by the handler is written under the key, and the next identical request
  is answered from the cache, the handler having run once only.
\<close>

theorem C6_empty_collection_is_cached:
  "fst (intercept sample_json memory_ops user_42 (returning (JArr [])) (sample_app connected_service))
     = Inr (JArr [])
   \<and> entries (client (redis (snd (intercept sample_json memory_ops user_42 (returning (JArr []))
         (sample_app connected_service))))) = [(''app:v1:user:42'', ''[]'', Some 300)]
   \<and> fst (intercept sample_json memory_ops user_42 (returning (JArr []))
         (snd (intercept sample_json memory_ops user_42 (returning (JArr [])) (sample_app connected_service))))
       = Inr (JArr [])
   \<and> world (snd (intercept sample_json memory_ops user_42 (returning (JArr []))
         (snd (intercept sample_json memory_ops user_42 (returning (JArr [])) (sample_app connected_service)))))
       = 1"
  by (simp add: interceptor_defs redis_defs double_defs key_defs)


section \<open>Populate, then read\<close>






section \<open>Metrics\<close>

text \<open>
  The counters are read as the backend printed them: in an \<open>INFO\<close> text where the name
  of a counter first occurs followed by the digits of \<open>n\<close> and a character that is not a
  digit (the end of the line), the text handed to \<open>parseInt\<close> is the digits of \<open>n\<close>.
\<close>

lemma regex_capture_first_match:
  assumes "lit \<noteq> []" and "takeWhile cls rest \<noteq> []"
    and "\<And>i. i < length pre \<Longrightarrow> take (length lit) (drop i (pre @ lit @ rest)) \<noteq> lit"
  shows "regex_capture lit cls (pre @ lit @ rest) = Some (takeWhile cls rest)"
  using assms(3)
proof (induction pre)
  case Nil
  from assms(1) obtain c cs where l: "lit = c # cs" by (cases lit) auto
  have "regex_capture lit cls ((c # cs) @ rest) = Some (takeWhile cls rest)"
    using assms(2) by (simp add: l)
  then show ?case by (simp add: l)
next
  case (Cons x pre)
  have "take (length lit) (drop 0 ((x # pre) @ lit @ rest)) \<noteq> lit"
    by (rule Cons.prems) simp
  then have a: "take (length lit) (x # pre @ lit @ rest) \<noteq> lit" by simp
  have "\<And>i. i < length pre \<Longrightarrow> take (length lit) (drop i (pre @ lit @ rest)) \<noteq> lit"
  proof -
    fix i assume "i < length pre"
    then have "take (length lit) (drop (Suc i) ((x # pre) @ lit @ rest)) \<noteq> lit"
      by (intro Cons.prems) simp
    then show "take (length lit) (drop i (pre @ lit @ rest)) \<noteq> lit" by simp
  qed
  then have "regex_capture lit cls (pre @ lit @ rest) = Some (takeWhile cls rest)"
    by (rule Cons.IH)
  with a show ?case by (simp add: Let_def)
qed

lemma info_digits_reads_back:
  assumes "lit \<noteq> []" and "\<not> is_digit c"
    and "\<And>i. i < length pre \<Longrightarrow>
           take (length lit) (drop i (pre @ lit @ string_of_nat n @ c # post)) \<noteq> lit"
  shows "info_digits lit (pre @ lit @ string_of_nat n @ c # post) = string_of_nat n"
proof -
  have t: "takeWhile is_digit (string_of_nat n @ c # post) = string_of_nat n"
    using assms(2) by (simp add: string_of_nat_digits)
  then have "takeWhile is_digit (string_of_nat n @ c # post) \<noteq> []"
    by (simp add: string_of_nat_nonempty)
  from regex_capture_first_match [OF assms(1) this assms(3)] t
  show ?thesis by (simp add: info_digits_def)
qed

text \<open>
  Claim C9, as the code has it. When the three commands succeed, \<open>getMetrics\<close> returns
  the object with the properties \<open>hits\<close>, \<open>misses\<close>, \<open>hitRate\<close>, \<open>totalKeys\<close> and
  \<open>memoryUsed\<close>, in this order. \<open>hits\<close> and \<open>misses\<close> are \<open>parseInt\<close> of the digits of the
  counters \<open>keyspace_hits\<close> and \<open>keyspace_misses\<close> in the backend's \<open>INFO stats\<close> text,
  \<open>totalKeys\<close> is the reply to \<open>DBSIZE\<close>, \<open>memoryUsed\<close> is the field \<open>used_memory_human\<close>
  of \<open>INFO memory\<close>. With \<open>rate\<close> being \<open>hits / (hits + misses) * 100\<close> in the arithmetic
  of the language when \<open>hits + misses > 0\<close> and 0 otherwise, \<open>hitRate\<close> is
  \<open>parseFloat(rate.toFixed(2))\<close>: the rate rounded to two decimals. The snapshot does not
  depend on the process-local counters. This holds for whatever the arithmetic of the
  language is.
\<close>

theorem C9_snapshot_from_backend_counters:
  assumes "c_info ops (client (redis s)) ''stats'' = (Inr info, c1)"
    and "c_dbsize ops c1 = (Inr dbSize, c2)"
    and "c_info ops c2 ''memory'' = (Inr minfo, c3)"
    and "h = parseInt N (info_digits ''keyspace_hits:'' info)"
    and "m = parseInt N (info_digits ''keyspace_misses:'' info)"
    and "rate = (if num_gt N (num_add N h m) (num_of N 0)
                 then num_mul N (num_div N h (num_add N h m)) (num_of N 100)
                 else num_of N 0)"
  shows "fst (getMetrics N ops s) =
           Inr [(''hits'', Number h),
                (''misses'', Number m),
                (''hitRate'', Number (parseFloat N (toFixed N rate 2))),
                (''totalKeys'', Number (num_of N dbSize)),
                (''memoryUsed'', Text (info_text ''used_memory_human:'' minfo))]
       \<and> snapshot_fields (fst (getMetrics N ops s))
           = [''hits'', ''misses'', ''hitRate'', ''totalKeys'', ''memoryUsed'']
       \<and> fst (getMetrics N ops (s\<lparr>metrics := local_counters\<rparr>)) = fst (getMetrics N ops s)"
proof -
  have a: "fst (getMetrics N ops s) =
           Inr [(''hits'', Number h),
                (''misses'', Number m),
                (''hitRate'', Number (parseFloat N (toFixed N rate 2))),
                (''totalKeys'', Number (num_of N dbSize)),
                (''memoryUsed'', Text (info_text ''used_memory_human:'' minfo))]"
    using assms
    by (simp add: getMetrics_def getMemoryUsage_def getClient_def Let_def info_digits_def
        info_text_def)
  have c: "fst (getMetrics N ops (s\<lparr>metrics := local_counters\<rparr>)) = fst (getMetrics N ops s)"
    by (simp add: getMetrics_def getMemoryUsage_def getClient_def Let_def
        split: prod.splits sum.splits)
  from a c show ?thesis by simp
qed

theorem C9_snapshot_witness:
  "fst (c_info memory_ops (client (redis (sample_app connected_service))) ''stats'') = Inr sample_stats
   \<and> fst (c_dbsize memory_ops
         (snd (c_info memory_ops (client (redis (sample_app connected_service))) ''stats''))) = Inr 0
   \<and> fst (c_info memory_ops
         (snd (c_dbsize memory_ops
            (snd (c_info memory_ops (client (redis (sample_app connected_service))) ''stats''))))
         ''memory'') = Inr sample_memory
   \<and> info_digits ''keyspace_hits:'' sample_stats = ''8542''
   \<and> info_digits ''keyspace_misses:'' sample_stats = ''1458''
   \<and> info_text ''used_memory_human:'' sample_memory = ''4.20M''
   \<and> parseInt binary64 ''8542'' = 8542
   \<and> parseInt binary64 ''1458'' = 1458
   \<and> num_gt binary64 (num_add binary64 8542 1458) (num_of binary64 0)
   \<and> toFixed binary64
        (num_mul binary64 (num_div binary64 8542 (num_add binary64 8542 1458)) (num_of binary64 100)) 2
       = ''85.42''
   \<and> fst (getMetrics binary64 memory_ops (sample_app connected_service)) =
       Inr [(''hits'', Number 8542), (''misses'', Number 1458),
            (''hitRate'', Number (parseFloat binary64 ''85.42'')),
            (''totalKeys'', Number 0), (''memoryUsed'', Text ''4.20M'')]
   \<and> fst (getMetrics binary64 memory_ops
         ((sample_app connected_service)\<lparr>metrics := \<lparr>hits = 7, misses = 9\<rparr>\<rparr>))
       = fst (getMetrics binary64 memory_ops (sample_app connected_service))
   \<and> info_digits ''keyspace_hits:'' zero_stats = ''0''
   \<and> info_digits ''keyspace_misses:'' zero_stats = ''0''
   \<and> \<not> num_gt binary64 (num_add binary64 0 0) (num_of binary64 0)
   \<and> toFixed binary64 (num_of binary64 0) 2 = ''0.00''
   \<and> fst (getMetrics binary64 memory_ops
           (sample_app (connected_service\<lparr>client := empty_client\<lparr>info_stats := zero_stats\<rparr>\<rparr>)))
       = Inr [(''hits'', Number 0), (''misses'', Number 0), (''hitRate'', Number 0),
              (''totalKeys'', Number 0), (''memoryUsed'', Text ''4.20M'')]"
  using C9_snapshot_from_backend_counters [of memory_ops "sample_app connected_service" sample_stats
      "snd (c_info memory_ops (client (redis (sample_app connected_service))) ''stats'')"
      0
      "snd (c_dbsize memory_ops
         (snd (c_info memory_ops (client (redis (sample_app connected_service))) ''stats'')))"
      sample_memory
      "snd (c_info memory_ops
         (snd (c_dbsize memory_ops
            (snd (c_info memory_ops (client (redis (sample_app connected_service))) ''stats''))))
         ''memory'')"
      8542 binary64 1458
      "num_mul binary64 (num_div binary64 8542 (num_add binary64 8542 1458)) (num_of binary64 100)"
      "\<lparr>hits = 7, misses = 9\<rparr>"]
    C9_snapshot_from_backend_counters [of memory_ops
      "sample_app (connected_service\<lparr>client := empty_client\<lparr>info_stats := zero_stats\<rparr>\<rparr>)"
      zero_stats
      "snd (c_info memory_ops (empty_client\<lparr>info_stats := zero_stats\<rparr>) ''stats'')"
      0
      "snd (c_dbsize memory_ops
         (snd (c_info memory_ops (empty_client\<lparr>info_stats := zero_stats\<rparr>) ''stats'')))"
      sample_memory
      "snd (c_info memory_ops
         (snd (c_dbsize memory_ops
            (snd (c_info memory_ops (empty_client\<lparr>info_stats := zero_stats\<rparr>) ''stats''))))
         ''memory'')"
      0 binary64 0 "num_of binary64 0" "\<lparr>hits = 7, misses = 9\<rparr>"]
  by (simp add: metrics_defs redis_defs double_defs number_defs)

text \<open>
  Claim C9, as the specification states it, fails. The snapshot has no property
  \<open>hitRatePercent\<close> and no property \<open>memoryUsedHuman\<close>. With one hit and two misses
  \<open>hitRate\<close> is the number 33.33, which is not \<open>1 / (1 + 2) * 100\<close>; with 23 hits and 137
  misses it is 14.37, which is not \<open>23 / (23 + 137) * 100\<close>.
\<close>

theorem C9_fields_and_rounding:
  "snapshot_fields (fst (getMetrics binary64 memory_ops (sample_app connected_service)))
     = [''hits'', ''misses'', ''hitRate'', ''totalKeys'', ''memoryUsed'']
   \<and> ''hitRatePercent''
       \<notin> set (snapshot_fields (fst (getMetrics binary64 memory_ops (sample_app connected_service))))
   \<and> ''memoryUsedHuman''
       \<notin> set (snapshot_fields (fst (getMetrics binary64 memory_ops (sample_app connected_service))))
   \<and> fst (getMetrics binary64 memory_ops
           (sample_app (connected_service\<lparr>client := empty_client\<lparr>info_stats := third_stats\<rparr>\<rparr>)))
       = Inr [(''hits'', Number 1), (''misses'', Number 2),
              (''hitRate'', Number (parseFloat binary64 ''33.33'')),
              (''totalKeys'', Number 0), (''memoryUsed'', Text ''4.20M'')]
   \<and> parseFloat binary64 ''33.33''
       \<noteq> num_mul binary64 (num_div binary64 1 (num_add binary64 1 2)) 100
   \<and> fst (getMetrics binary64 memory_ops
           (sample_app (connected_service\<lparr>client := empty_client\<lparr>info_stats := seventh_stats\<rparr>\<rparr>)))
       = Inr [(''hits'', Number 23), (''misses'', Number 137),
              (''hitRate'', Number (parseFloat binary64 ''14.37'')),
              (''totalKeys'', Number 0), (''memoryUsed'', Text ''4.20M'')]
   \<and> parseFloat binary64 ''14.37''
       \<noteq> num_mul binary64 (num_div binary64 23 (num_add binary64 23 137)) 100"
  by (simp add: metrics_defs redis_defs double_defs number_defs)

text \<open>
  Claim C10: \<open>getMetrics\<close> and \<open>resetMetrics\<close> take the raw client and do not look at the
  health flag (their outcome is the same whatever the flag is). When \<open>INFO stats\<close>,
  \<open>DBSIZE\<close> or \<open>INFO memory\<close> fails, \<open>getMetrics\<close> fails with that error; when
  \<open>CONFIG RESETSTAT\<close> fails, \<open>resetMetrics\<close> fails with that error and the process-local
  counters are not reset.
\<close>

theorem C10_metrics_operations_propagate:
  "(fst (c_info ops (client (redis s)) ''stats'') = Inl e \<longrightarrow> fst (getMetrics N ops s) = Inl e)
   \<and> (fst (c_info ops (client (redis s)) ''stats'') = Inr info
        \<and> fst (c_dbsize ops (snd (c_info ops (client (redis s)) ''stats''))) = Inl e \<longrightarrow>
         fst (getMetrics N ops s) = Inl e)
   \<and> (fst (c_info ops (client (redis s)) ''stats'') = Inr info
        \<and> fst (c_dbsize ops (snd (c_info ops (client (redis s)) ''stats''))) = Inr n
        \<and> fst (c_info ops (snd (c_dbsize ops (snd (c_info ops (client (redis s)) ''stats''))))
              ''memory'') = Inl e \<longrightarrow>
         fst (getMetrics N ops s) = Inl e)
   \<and> (fst (c_config ops (client (redis s)) ''RESETSTAT'') = Inl e \<longrightarrow>
         fst (resetMetrics ops s) = Inl e \<and> metrics (snd (resetMetrics ops s)) = metrics s)
   \<and> fst (getMetrics N ops (s\<lparr>redis := (redis s)\<lparr>isConnected := flag\<rparr>\<rparr>)) = fst (getMetrics N ops s)
   \<and> fst (resetMetrics ops (s\<lparr>redis := (redis s)\<lparr>isConnected := flag\<rparr>\<rparr>)) = fst (resetMetrics ops s)"
  by (auto simp: getMetrics_def getMemoryUsage_def resetMetrics_def getClient_def Let_def
      split: prod.splits sum.splits)

theorem C10_metrics_operations_witness:
  "\<not> isHealthy (redis (sample_app closed_service))
   \<and> fst (c_info memory_ops (client (redis (sample_app closed_service))) ''stats'') = Inl closed_error
   \<and> fst (getMetrics binary64 memory_ops (sample_app closed_service)) = Inl closed_error
   \<and> fst (c_config memory_ops (client (redis (sample_app closed_service))) ''RESETSTAT'')
       = Inl closed_error
   \<and> fst (resetMetrics memory_ops ((sample_app closed_service)\<lparr>metrics := \<lparr>hits = 7, misses = 9\<rparr>\<rparr>))
       = Inl closed_error
   \<and> metrics (snd (resetMetrics memory_ops
         ((sample_app closed_service)\<lparr>metrics := \<lparr>hits = 7, misses = 9\<rparr>\<rparr>))) = \<lparr>hits = 7, misses = 9\<rparr>
   \<and> fst (get memory_ops (redis (sample_app closed_service)) ''app:v1:user:42'') = Inr None
   \<and> fst (c_info no_dbsize_ops (client (redis (sample_app connected_service))) ''stats'')
       = Inr sample_stats
   \<and> fst (c_dbsize no_dbsize_ops
         (snd (c_info no_dbsize_ops (client (redis (sample_app connected_service))) ''stats'')))
       = Inl (ClientError ''ERR unknown command'')
   \<and> fst (getMetrics binary64 no_dbsize_ops (sample_app connected_service))
       = Inl (ClientError ''ERR unknown command'')
   \<and> fst (c_info no_memory_ops (client (redis (sample_app connected_service))) ''stats'')
       = Inr sample_stats
   \<and> fst (c_dbsize no_memory_ops
         (snd (c_info no_memory_ops (client (redis (sample_app connected_service))) ''stats'')))
       = Inr 0
   \<and> fst (c_info no_memory_ops
         (snd (c_dbsize no_memory_ops
            (snd (c_info no_memory_ops (client (redis (sample_app connected_service))) ''stats''))))
         ''memory'') = Inl (ClientError ''ERR unknown section'')
   \<and> fst (getMetrics binary64 no_memory_ops (sample_app connected_service))
       = Inl (ClientError ''ERR unknown section'')"
  using C10_metrics_operations_propagate [of memory_ops "sample_app closed_service" closed_error binary64
      sample_stats 0 False]
    C10_metrics_operations_propagate [of memory_ops
      "(sample_app closed_service)\<lparr>metrics := \<lparr>hits = 7, misses = 9\<rparr>\<rparr>" closed_error binary64
      sample_stats 0 False]
    C10_metrics_operations_propagate [of no_dbsize_ops "sample_app connected_service"
      "ClientError ''ERR unknown command''" binary64 sample_stats 0 False]
    C10_metrics_operations_propagate [of no_memory_ops "sample_app connected_service"
      "ClientError ''ERR unknown section''" binary64 sample_stats 0 False]
  by (simp add: metrics_defs redis_defs double_defs no_dbsize_ops_def no_memory_ops_def)


end
